theory Spec2Isabelle
  imports Main "HOL-Library.Word"
begin

section \<open>Multiaddresses and the address-consistency check\<close>

text \<open>
  The client of listener.go (second part, package autonatv2) only looks at a multiaddress
  through \<^verbatim>\<open>a == nil\<close> and \<^verbatim>\<open>a.Protocols()\<close>. A defined multiaddress is modelled as
  the list of its components, each a protocol together with the bytes of its value; the
  Go interface value \<^verbatim>\<open>nil\<close> is \<open>None\<close>. Of \<^verbatim>\<open>ma.Protocol\<close> the fields
  \<^verbatim>\<open>Name\<close> and \<^verbatim>\<open>Code\<close> are kept.
\<close>

record Protocol =
  Name :: string
  Code :: int

type_synonym Component = "Protocol \<times> nat list"

type_synonym Multiaddr = "Component list option"

definition Protocols :: "Component list \<Rightarrow> Protocol list" where
  "Protocols a = map fst a"

text \<open>
  \<^verbatim>\<open>slices.EqualFunc\<close> (golang.org/x/exp/slices): false when the lengths differ,
  otherwise the elements are compared pairwise with \<open>eq\<close>, stopping at the first
  mismatch.
\<close>

fun EqualFunc :: "'a list \<Rightarrow> 'b list \<Rightarrow> ('a \<Rightarrow> 'b \<Rightarrow> bool) \<Rightarrow> bool" where
  "EqualFunc [] [] eq = True"
| "EqualFunc (v1 # s1) (v2 # s2) eq = (if \<not> eq v1 v2 then False else EqualFunc s1 s2 eq)"
| "EqualFunc _ _ eq = False"

text \<open>listener.go, lines 469-477.\<close>

definition areAddrsConsistent :: "Multiaddr \<Rightarrow> Multiaddr \<Rightarrow> bool" where
  "areAddrsConsistent a b =
     (if a = None \<or> b = None then False
      else
        let aprotos = Protocols (the a);
            bprotos = Protocols (the b)
        in EqualFunc aprotos bprotos (\<lambda>p1 p2. Code p1 = Code p2))"

section \<open>The reachability client (package autonatv2)\<close>

subsection \<open>Messages, errors and results\<close>

text \<open>
  Modelled from the spec: the generated package pb (the enums \<^verbatim>\<open>DialStatus\<close> and
  \<^verbatim>\<open>DialResponse_ResponseStatus\<close> with their named values) is not under src/. Both
  enums are Go \<^verbatim>\<open>int32\<close> types, so a received status may be any number; they are
  modelled as \<open>int\<close>. The spec fixes "unused" as the zero value, which the error text of
  line 340 repeats; the other named values carry the numbers of the protocol's
  definition. The theorems below use of them only that they are pairwise distinct.
\<close>

definition DialResponse_E_DIAL_REFUSED :: int where
  "DialResponse_E_DIAL_REFUSED = 101"

definition DialResponse_OK :: int where
  "DialResponse_OK = 200"

definition DialStatus_UNUSED :: int where
  "DialStatus_UNUSED = 0"

definition DialStatus_E_DIAL_ERROR :: int where
  "DialStatus_E_DIAL_ERROR = 100"

definition DialStatus_E_DIAL_BACK_ERROR :: int where
  "DialStatus_E_DIAL_BACK_ERROR = 101"

definition DialStatus_OK :: int where
  "DialStatus_OK = 200"

record DialResponse =
  resp_Status :: int
  resp_AddrIdx :: "32 word"
  resp_DialStatus :: int

record DialDataRequest =
  req_AddrIdx :: "32 word"
  req_NumBytes :: "64 word"

text \<open>
  \<^verbatim>\<open>pb.Message\<close> with its oneof field \<^verbatim>\<open>Msg\<close>; \<open>NoMsg\<close> is the message whose
  oneof is not set. A dial request carries the byte encodings of the addresses
  (\<^verbatim>\<open>a.Bytes()\<close>); the encoding belongs to the address library, so the component lists
  stand for their own encodings.
\<close>

datatype Message =
    NoMsg
  | DialRequestMsg "Component list list" "64 word"
  | DialResponseMsg DialResponse
  | DialDataRequestMsg DialDataRequest
  | DialDataResponseMsg "nat list"

text \<open>
  Go errors as values. \<open>IOErr k\<close> is an error a collaborator returned (stream, scope,
  reader, writer); \<open>ErrDialRefused\<close> is the client package's distinguished error and
  \<open>ErrClosed\<close> the listener's \<^verbatim>\<open>errClosed\<close> (line 21);
  \<open>Wrap f e\<close> is \<^verbatim>\<open>fmt.Errorf(f, ..., e)\<close> with a \<^verbatim>\<open>%w\<close> verb, and \<open>Errorf f args\<close> is
  \<^verbatim>\<open>fmt.Errorf(f, args...)\<close> without one, keeping the format string and the numbers
  it is given.
\<close>

datatype error =
    IOErr nat
  | ErrDialRefused
  | ErrClosed
  | Wrap string error
  | Errorf string "int list"

text \<open>A call either returns or panics (a run-time panic unwinds through the deferred calls).\<close>

datatype 'a outcome = Return 'a | Panic

datatype Reachability = ReachabilityUnknown | ReachabilityPublic | ReachabilityPrivate

record Result =
  Idx :: nat
  Addr :: Multiaddr
  Reachability :: Reachability
  Status :: int

subsection \<open>State, effects and the outside world\<close>

text \<open>
  The client's state: its filler buffer \<^verbatim>\<open>dialData\<close>, the nonce-to-channel map
  \<^verbatim>\<open>dialBackQueues\<close>, and the channels made so far. A channel is named by a number;
  \<open>chanBuf c\<close> is what channel \<open>c\<close> holds buffered, and \<open>nextChan\<close> is the name the next
  \<^verbatim>\<open>make(chan ma.Multiaddr, 1)\<close> gives. The mutex is not modelled: each function below
  runs as one sequential call.
\<close>

record Client =
  dialData :: "nat list"
  dialBackQueues :: "64 word \<rightharpoonup> nat"
  chanBuf :: "nat \<Rightarrow> Multiaddr list"
  nextChan :: nat

text \<open>listener.go, lines 248-250: a filler buffer of 4096 bytes and an empty map.\<close>

definition NewClient :: Client where
  "NewClient =
     \<lparr>dialData = replicate 4096 0, dialBackQueues = Map.empty, chanBuf = (\<lambda>c. []),
      nextChan = 0\<rparr>"

text \<open>What a call does to its stream and the stream's scope, in order.\<close>

datatype event =
    EvReset
  | EvClose
  | EvSetDeadline
  | EvReserveMemory
  | EvReleaseMemory
  | EvWriteMsg Message
  | EvReadMsg "error + Message"
  | EvReadDialBack "error + 64 word"

text \<open>The case of the select statement of lines 346-351 that fires.\<close>

datatype select_case = RecvCh Multiaddr | CtxDone | TimerC

text \<open>
  What the collaborators of one call of \<^verbatim>\<open>CheckReachability\<close> answer:
  \<open>newStream\<close>, \<open>setService\<close> and \<open>reserveMemory\<close> are the errors of
  \<^verbatim>\<open>host.NewStream\<close>, \<^verbatim>\<open>SetService\<close> and \<^verbatim>\<open>ReserveMemory\<close> (\<open>None\<close> is Go's
  nil error); \<open>randUint64\<close> is the nonce drawn; \<open>writeMsg k\<close> and \<open>readMsg k\<close> are
  the results of the \<open>k\<close>-th \<^verbatim>\<open>WriteMsg\<close> and \<^verbatim>\<open>ReadMsg\<close> on the stream, counted from
  0; \<open>selectDialBack\<close> is the case of the dial-back select that fires, with the address a
  concurrent dial-back handler delivered when it is the receive. The package constant
  \<^verbatim>\<open>maxHandshakeSizeBytes\<close> is declared outside src/ and is a parameter here.
\<close>

record cr_env =
  newStream :: "error option"
  setService :: "error option"
  reserveMemory :: "error option"
  randUint64 :: "64 word"
  writeMsg :: "nat \<Rightarrow> error option"
  readMsg :: "nat \<Rightarrow> error + Message"
  selectDialBack :: select_case
  maxHandshakeSizeBytes :: nat

subsection \<open>newResults, sendDialData, newDialRequest\<close>

text \<open>
  listener.go, lines 357-388. Go's \<^verbatim>\<open>int\<close> is taken to have 64 bits, so
  \<^verbatim>\<open>int(resp.AddrIdx)\<close> of a \<^verbatim>\<open>uint32\<close> is its unsigned value \<open>unat\<close>.
\<close>

definition newResults ::
  "DialResponse \<Rightarrow> Multiaddr list \<Rightarrow> Multiaddr list \<Rightarrow> Multiaddr \<Rightarrow> error + Result" where
  "newResults resp highPriorityAddrs lowPriorityAddrs dialBackAddr =
     (if unat (resp_AddrIdx resp) \<ge> length highPriorityAddrs + length lowPriorityAddrs
      then Inl (Errorf ''addrIdx out of range: %d 0-%d''
                  [uint (resp_AddrIdx resp),
                   int (length highPriorityAddrs) + int (length lowPriorityAddrs) - 1])
      else
        let idx = unat (resp_AddrIdx resp);
            addr = (if idx < length highPriorityAddrs then highPriorityAddrs ! idx
                    else lowPriorityAddrs ! (idx - length highPriorityAddrs));
            status = resp_DialStatus resp
        in if status = DialStatus_OK then
             (if areAddrsConsistent dialBackAddr addr
              then Inr \<lparr>Idx = idx, Addr = addr, Reachability = ReachabilityPublic, Status = status\<rparr>
              else Inr \<lparr>Idx = idx, Addr = addr, Reachability = ReachabilityUnknown,
                        Status = DialStatus_E_DIAL_BACK_ERROR\<rparr>)
           else if status = DialStatus_E_DIAL_ERROR then
             Inr \<lparr>Idx = idx, Addr = addr, Reachability = ReachabilityPrivate, Status = status\<rparr>
           else
             Inr \<lparr>Idx = idx, Addr = addr, Reachability = ReachabilityUnknown, Status = status\<rparr>)"

text \<open>
  The loop of \<^verbatim>\<open>sendDialData\<close>, lines 398-408: \<open>dl\<close> is \<^verbatim>\<open>ac.dialData\<close>,
  \<open>data\<close> the current \<^verbatim>\<open>ddResp.Data\<close>, \<open>k\<close> the number of messages written on the
  stream so far and \<open>tr\<close> the events so far. With an empty \<^verbatim>\<open>ac.dialData\<close> the loop
  makes no progress and ends only when a write fails, so it is a partial function:
  \<open>None\<close> is a loop that runs forever.
\<close>

partial_function (option) sendDialData_loop ::
  "(nat \<Rightarrow> error option) \<Rightarrow> nat list \<Rightarrow> nat list \<Rightarrow> int \<Rightarrow> nat \<Rightarrow> event list
     \<Rightarrow> (event list \<times> error option) option" where
  "sendDialData_loop wr dl data remain k tr =
     (if remain > 0 then
        let end = (if remain > int (length dl) then int (length dl) else remain);
            data' = take (nat end) data;
            tr' = tr @ [EvWriteMsg (DialDataResponseMsg data')]
        in (case wr k of
              Some err \<Rightarrow> Some (tr', Some err)
            | None \<Rightarrow> sendDialData_loop wr dl data' (remain - end) (Suc k) tr')
      else Some (tr, None))"

text \<open>
  listener.go, lines 390-410. \<^verbatim>\<open>int(nb)\<close> of a \<^verbatim>\<open>uint64\<close> is its two's complement
  reading \<open>sint\<close>.
\<close>

definition sendDialData ::
  "(nat \<Rightarrow> error option) \<Rightarrow> Client \<Rightarrow> DialDataRequest \<Rightarrow> nat \<Rightarrow> event list
     \<Rightarrow> (event list \<times> error option) option" where
  "sendDialData wr ac req k tr =
     (let nb = req_NumBytes req
      in sendDialData_loop wr (dialData ac) (dialData ac) (sint nb) k tr)"

text \<open>
  listener.go, lines 412-428. \<^verbatim>\<open>a.Bytes()\<close> on a nil address is a nil dereference:
  \<open>None\<close> is that panic.
\<close>

definition newDialRequest ::
  "Multiaddr list \<Rightarrow> Multiaddr list \<Rightarrow> 64 word \<Rightarrow> Message option" where
  "newDialRequest highPriorityAddrs lowPriorityAddrs nonce =
     (if list_all (\<lambda>a. a \<noteq> None) (highPriorityAddrs @ lowPriorityAddrs)
      then Some (DialRequestMsg (map the (highPriorityAddrs @ lowPriorityAddrs)) nonce)
      else None)"

subsection \<open>CheckReachability\<close>

text \<open>
  \<^verbatim>\<open>CheckReachability\<close> is one Go function (lines 254-355); it is given here in three
  parts that follow its text. The first is the message exchange of lines 288-328: the
  dial request is built and written, one message is read, and a dial data request is
  checked and answered before the dial response is read. It yields the events on the
  stream and either the error returned or the dial response that lines 330-354 go on
  with. \<^verbatim>\<open>int(AddrIdx)\<close> of a \<^verbatim>\<open>uint32\<close> is \<open>unat\<close>; the comparison of line 309 is
  between unsigned numbers.
\<close>

definition CheckReachability_exchange ::
  "cr_env \<Rightarrow> Client \<Rightarrow> Multiaddr list \<Rightarrow> Multiaddr list \<Rightarrow> 64 word
     \<Rightarrow> (event list \<times> (error + DialResponse) outcome) option" where
  "CheckReachability_exchange env ac highPriorityAddrs lowPriorityAddrs nonce =
     (case newDialRequest highPriorityAddrs lowPriorityAddrs nonce of
        None \<Rightarrow> Some ([], Panic)
      | Some msg \<Rightarrow>
         (case writeMsg env 0 of
            Some err \<Rightarrow>
              Some ([EvWriteMsg msg, EvReset], Return (Inl (Wrap ''dial request write: %w'' err)))
          | None \<Rightarrow>
             (case readMsg env 0 of
                Inl err \<Rightarrow>
                  Some ([EvWriteMsg msg, EvReadMsg (Inl err), EvReset],
                        Return (Inl (Wrap ''dial msg read: %w'' err)))
              | Inr m \<Rightarrow>
                 (let tr = [EvWriteMsg msg, EvReadMsg (Inr m)] in
                  case m of
                    DialResponseMsg resp \<Rightarrow> Some (tr, Return (Inr resp))
                  | DialDataRequestMsg req \<Rightarrow>
                      if unat (req_AddrIdx req) \<ge> length highPriorityAddrs then
                        Some (tr @ [EvReset],
                              Return (Inl (Errorf ''dial data requested for low priority address'' [])))
                      else if unat (req_NumBytes req) > maxHandshakeSizeBytes env then
                        Some (tr @ [EvReset],
                              Return (Inl (Errorf ''dial data requested too high: %d''
                                             [uint (req_NumBytes req)])))
                      else
                        (case sendDialData (writeMsg env) ac req 1 tr of
                           None \<Rightarrow> None
                         | Some (tr2, Some err) \<Rightarrow>
                             Some (tr2 @ [EvReset], Return (Inl (Wrap ''dial data send: %w'' err)))
                         | Some (tr2, None) \<Rightarrow>
                            (case readMsg env 1 of
                               Inl err \<Rightarrow>
                                 Some (tr2 @ [EvReadMsg (Inl err), EvReset],
                                       Return (Inl (Wrap ''dial response read: %w'' err)))
                             | Inr m2 \<Rightarrow>
                                (case m2 of
                                   DialResponseMsg resp \<Rightarrow>
                                     Some (tr2 @ [EvReadMsg (Inr m2)], Return (Inr resp))
                                 | _ \<Rightarrow>
                                     Some (tr2 @ [EvReadMsg (Inr m2), EvReset],
                                           Return (Inl (Errorf ''invalid response type: %T'' []))))))
                  | _ \<Rightarrow>
                      Some (tr @ [EvReset], Return (Inl (Errorf ''invalid msg type: %T'' [])))))))"

text \<open>
  The select statement of lines 345-352 on the channel registered for the nonce, the
  context and the timer: the dial-back address is the value received, and stays nil
  when the context or the timer fires first.
\<close>

definition waitDialBack :: "cr_env \<Rightarrow> Multiaddr" where
  "waitDialBack env =
     (case selectDialBack env of
        RecvCh at \<Rightarrow> at
      | CtxDone \<Rightarrow> None
      | TimerC \<Rightarrow> None)"

text \<open>Lines 330-354: what becomes of the dial response read.\<close>

definition CheckReachability_resolve ::
  "cr_env \<Rightarrow> Multiaddr list \<Rightarrow> Multiaddr list \<Rightarrow> DialResponse \<Rightarrow> error + Result" where
  "CheckReachability_resolve env highPriorityAddrs lowPriorityAddrs resp =
     (if resp_Status resp \<noteq> DialResponse_OK then
        (if resp_Status resp = DialResponse_E_DIAL_REFUSED
         then Inl (Wrap ''dial request: %w'' ErrDialRefused)
         else Inl (Errorf ''dial request: status %d %s'' [resp_Status resp]))
      else if resp_DialStatus resp = DialStatus_UNUSED then
        Inl (Errorf ''dial request failed: received invalid dial status 0'' [])
      else
        let dialBackAddr =
              (if resp_DialStatus resp = DialStatus_OK \<and>
                  unat (resp_AddrIdx resp) < length highPriorityAddrs + length lowPriorityAddrs
               then waitDialBack env
               else None)
        in newResults resp highPriorityAddrs lowPriorityAddrs dialBackAddr)"

text \<open>
  The whole call, lines 254-355. The result is the client afterwards, the events on the
  stream and its scope, and the outcome; \<open>None\<close> is a call that never returns. The
  deferred calls run on every way out after their \<^verbatim>\<open>defer\<close> statement, a panic
  included, in reverse order: the nonce is deleted from the map, the stream is closed,
  the memory is released. The context and the peer only feed \<^verbatim>\<open>NewStream\<close>.
\<close>

definition CheckReachability ::
  "cr_env \<Rightarrow> Client \<Rightarrow> Multiaddr list \<Rightarrow> Multiaddr list
     \<Rightarrow> (Client \<times> event list \<times> (error + Result) outcome) option" where
  "CheckReachability env ac highPriorityAddrs lowPriorityAddrs =
     (case newStream env of
        Some err \<Rightarrow> Some (ac, [], Return (Inl (Wrap ''open %s stream: %w'' err)))
      | None \<Rightarrow>
         (case setService env of
            Some err \<Rightarrow>
              Some (ac, [EvReset], Return (Inl (Wrap ''attach stream %s to service %s: %w'' err)))
          | None \<Rightarrow>
             (case reserveMemory env of
                Some err \<Rightarrow>
                  Some (ac, [EvReset],
                        Return (Inl (Wrap ''failed to reserve memory for stream %s: %w'' err)))
              | None \<Rightarrow>
                 (let nonce = randUint64 env;
                      ch = nextChan ac;
                      ac1 = ac\<lparr>chanBuf := (chanBuf ac)(ch := []), nextChan := Suc ch\<rparr>;
                      ac2 = ac1\<lparr>dialBackQueues := (dialBackQueues ac1)(nonce \<mapsto> ch)\<rparr>
                  in case CheckReachability_exchange env ac2 highPriorityAddrs lowPriorityAddrs nonce of
                       None \<Rightarrow> None
                     | Some (tr, out) \<Rightarrow>
                        (let res = (case out of
                                      Panic \<Rightarrow> Panic
                                    | Return (Inl err) \<Rightarrow> Return (Inl err)
                                    | Return (Inr resp) \<Rightarrow>
                                        Return (CheckReachability_resolve env highPriorityAddrs
                                                  lowPriorityAddrs resp));
                             ac3 = ac2\<lparr>dialBackQueues := (dialBackQueues ac2)(nonce := None)\<rparr>
                         in Some (ac3, [EvReserveMemory, EvSetDeadline] @ tr @ [EvClose, EvReleaseMemory],
                                  res))))))"

subsection \<open>handleDialBack\<close>

text \<open>
  What the collaborators of one call of \<^verbatim>\<open>handleDialBack\<close> answer: the errors of
  \<^verbatim>\<open>SetService\<close> and \<^verbatim>\<open>ReserveMemory\<close>, the result of reading the one
  \<^verbatim>\<open>pb.DialBack\<close> message (its nonce), and \<^verbatim>\<open>s.Conn().LocalMultiaddr()\<close>.
\<close>

record db_env =
  db_setService :: "error option"
  db_reserveMemory :: "error option"
  db_readMsg :: "error + 64 word"
  db_localMultiaddr :: Multiaddr

text \<open>
  The select statement of lines 463-466, a send with a default case. Looking up a nonce
  that is not in the map gives the nil channel, on which a send never proceeds, so the
  default case runs. On a channel of the map (made with capacity 1) the send proceeds
  when the buffer has room, and the default case runs when it is full.
\<close>

definition trySend :: "Client \<Rightarrow> nat option \<Rightarrow> Multiaddr \<Rightarrow> Client" where
  "trySend ac ch v =
     (case ch of
        None \<Rightarrow> ac
      | Some c \<Rightarrow>
          if length (chanBuf ac c) < 1
          then ac\<lparr>chanBuf := (chanBuf ac)(c := chanBuf ac c @ [v])\<rparr>
          else ac)"

text \<open>listener.go, lines 434-467; the result is the client afterwards and the events.\<close>

definition handleDialBack :: "db_env \<Rightarrow> Client \<Rightarrow> Client \<times> event list" where
  "handleDialBack env ac =
     (case db_setService env of
        Some err \<Rightarrow> (ac, [EvReset])
      | None \<Rightarrow>
         (case db_reserveMemory env of
            Some err \<Rightarrow> (ac, [EvReset])
          | None \<Rightarrow>
             (case db_readMsg env of
                Inl err \<Rightarrow>
                  (ac, [EvReserveMemory, EvSetDeadline, EvReadDialBack (Inl err), EvReset,
                        EvClose, EvReleaseMemory])
              | Inr nonce \<Rightarrow>
                 (let ch = dialBackQueues ac nonce
                  in (trySend ac ch (db_localMultiaddr env),
                      [EvReserveMemory, EvSetDeadline, EvReadDialBack (Inr nonce),
                       EvClose, EvReleaseMemory])))))"

section \<open>The listener (package libp2pwebtransport)\<close>

subsection \<open>State, effects and the outside world\<close>

text \<open>
  What the handshake yields (\<^verbatim>\<open>connSecurityMultiaddrs\<close>): the remote peer the secure
  channel authenticated and the two addresses of the session. A connection
  (\<^verbatim>\<open>newConn\<close>) holds its session, that value and its resource scope; sessions, peers
  and scopes are named by numbers.
\<close>

record connSecurityMultiaddrs =
  RemotePeer :: nat
  local :: Multiaddr
  remote :: Multiaddr

record conn =
  conn_sess :: nat
  conn_sconn :: connSecurityMultiaddrs
  conn_scope :: nat

text \<open>The connection that \<^verbatim>\<open>newConn\<close> builds at line 141.\<close>

definition newConn :: "nat \<Rightarrow> connSecurityMultiaddrs \<Rightarrow> nat \<Rightarrow> conn" where
  "newConn sess sconn connScope = \<lparr>conn_sess = sess, conn_sconn = sconn, conn_scope = connScope\<rparr>"

text \<open>
  Of the listener: whether the transport has a connection gater
  (\<^verbatim>\<open>l.transport.gater != nil\<close>), \<^verbatim>\<open>isStaticTLSConf\<close>, its multiaddress, whether its
  context \<^verbatim>\<open>l.ctx\<close> has been cancelled, and the connections buffered in the channel
  \<^verbatim>\<open>l.queue\<close>, oldest first.
\<close>

record listener =
  gater :: bool
  isStaticTLSConf :: bool
  multiaddr :: Multiaddr
  ctxDone :: bool
  queue :: "conn list"

text \<open>listener.go, line 23.\<close>

definition queueLen :: nat where
  "queueLen = 16"

text \<open>The status codes of net/http that the handler writes.\<close>

definition StatusBadRequest :: nat where
  "StatusBadRequest = 400"

definition StatusForbidden :: nat where
  "StatusForbidden = 403"

definition StatusServiceUnavailable :: nat where
  "StatusServiceUnavailable = 503"

text \<open>
  Modelled from the spec: the constant \<^verbatim>\<open>errorCodeConnectionGating\<close> is declared
  outside src/; the spec calls it a dedicated gating error code. It carries the four
  letters GATE, and differs from the code 1 of the other session closes.
\<close>

definition errorCodeConnectionGating :: nat where
  "errorCodeConnectionGating = 0x47415445"

text \<open>
  What one call of \<^verbatim>\<open>httpHandler\<close> does to the outside, in order: the status written
  to the response, the reservation opened at the resource manager, its release
  \<^verbatim>\<open>connScope.Done()\<close>, the close of the session with an error code, the registration
  \<^verbatim>\<open>addConn\<close> at the transport, and the two kinds of log line.
\<close>

datatype effect =
    WriteHeader nat
  | OpenConnection nat
  | ScopeDone nat
  | CloseWithError nat nat
  | AddConn conn
  | Errorw string
  | Debugw string

text \<open>
  What the collaborators of one inbound request answer: the values of the query
  parameter \<^verbatim>\<open>type\<close> (\<open>None\<close> when it is absent), the translation of the remote
  address (\<^verbatim>\<open>stringToWebtransportMultiaddr\<close>, declared outside src/), the gater's
  \<^verbatim>\<open>InterceptAccept\<close>, the resource manager's \<^verbatim>\<open>OpenConnection\<close> (the scope),
  \<^verbatim>\<open>server.Upgrade\<close> (the session), the steps of the handshake
  (\<^verbatim>\<open>toWebtransportMultiaddr\<close> of the local and of the remote address,
  \<^verbatim>\<open>AcceptStream\<close>, \<^verbatim>\<open>WithSessionOptions\<close>, \<^verbatim>\<open>SecureInbound\<close> with the peer it
  authenticates), the gater's \<^verbatim>\<open>InterceptSecured\<close> and the scope's \<^verbatim>\<open>SetPeer\<close>.
\<close>

record req_env =
  queryType :: "string list option"
  remoteMultiaddr :: "error + Multiaddr"
  interceptAccept :: bool
  openConnection :: "error + nat"
  upgrade :: "error + nat"
  hsLocalAddr :: "error + Multiaddr"
  hsRemoteAddr :: "error + Multiaddr"
  hsAcceptStream :: "error option"
  hsWithSessionOptions :: "error option"
  hsSecureInbound :: "error + nat"
  interceptSecured :: bool
  setPeer :: "error option"

subsection \<open>newListener, handshake, httpHandler, Accept, Close\<close>

text \<open>
  listener.go, lines 46-81, as far as the listener's own state goes: the translation of
  the local address may fail; otherwise the queue is empty and the context is live. The
  serving goroutine (lines 68-79) hands each request to \<^verbatim>\<open>httpHandler\<close>.
\<close>

definition newListener :: "error + Multiaddr \<Rightarrow> bool \<Rightarrow> bool \<Rightarrow> error + listener" where
  "newListener localMultiaddr hasGater static =
     (case localMultiaddr of
        Inl err \<Rightarrow> Inl err
      | Inr m \<Rightarrow>
          Inr \<lparr>gater = hasGater, isStaticTLSConf = static, multiaddr = m, ctxDone = False,
               queue = []\<rparr>)"

text \<open>
  listener.go, lines 161-196. The early data (the certificate hashes, sent unless the
  TLS configuration is static) goes into the secure channel and shows in no result.
\<close>

definition handshake :: "req_env \<Rightarrow> listener \<Rightarrow> nat \<Rightarrow> error + connSecurityMultiaddrs" where
  "handshake env l sess =
     (case hsLocalAddr env of
        Inl err \<Rightarrow> Inl (Wrap ''error determiniting local addr: %w'' err)
      | Inr loc \<Rightarrow>
         (case hsRemoteAddr env of
            Inl err \<Rightarrow> Inl (Wrap ''error determiniting remote addr: %w'' err)
          | Inr rem \<Rightarrow>
             (case hsAcceptStream env of
                Some err \<Rightarrow> Inl err
              | None \<Rightarrow>
                 (case hsWithSessionOptions env of
                    Some err \<Rightarrow> Inl (Wrap ''failed to initialize Noise session: %w'' err)
                  | None \<Rightarrow>
                     (case hsSecureInbound env of
                        Inl err \<Rightarrow> Inl err
                      | Inr p \<Rightarrow> Inr \<lparr>RemotePeer = p, local = loc, remote = rem\<rparr>)))))"

text \<open>
  listener.go, lines 83-150. The send of lines 143-149 is a select with a default case
  on a channel of capacity \<open>queueLen\<close>: it proceeds when the buffer has room and the
  default case runs when it is full. The result is the listener afterwards and the
  effects of the call.
\<close>

definition httpHandler :: "req_env \<Rightarrow> listener \<Rightarrow> listener \<times> effect list" where
  "httpHandler env l =
     (if queryType env = None \<or> length (the (queryType env)) \<noteq> 1 \<or> the (queryType env) ! 0 \<noteq> ''noise'' then
        (l, [WriteHeader StatusBadRequest])
      else
        case remoteMultiaddr env of
          Inl err \<Rightarrow>
            (l, [Errorw ''converting remote address failed'', WriteHeader StatusBadRequest])
        | Inr remoteMa \<Rightarrow>
            if gater l \<and> \<not> interceptAccept env then (l, [WriteHeader StatusForbidden])
            else
              case openConnection env of
                Inl err \<Rightarrow>
                  (l, [Debugw ''resource manager blocked incoming connection'',
                       WriteHeader StatusServiceUnavailable])
              | Inr connScope \<Rightarrow>
                 (case upgrade env of
                    Inl err \<Rightarrow>
                      (l, [OpenConnection connScope, Debugw ''upgrade failed'', WriteHeader 500,
                           ScopeDone connScope])
                  | Inr sess \<Rightarrow>
                     (case handshake env l sess of
                        Inl err \<Rightarrow>
                          (l, [OpenConnection connScope, Debugw ''handshake failed'',
                               CloseWithError sess 1, ScopeDone connScope])
                      | Inr sconn \<Rightarrow>
                          if gater l \<and> \<not> interceptSecured env then
                            (l, [OpenConnection connScope,
                                 CloseWithError sess errorCodeConnectionGating,
                                 ScopeDone connScope])
                          else
                            case setPeer env of
                              Some err \<Rightarrow>
                                (l, [OpenConnection connScope,
                                     Debugw ''resource manager blocked incoming connection for peer'',
                                     CloseWithError sess 1, ScopeDone connScope])
                            | None \<Rightarrow>
                               (let c = \<lparr>conn_sess = sess, conn_sconn = sconn,
                                         conn_scope = connScope\<rparr>
                                in if length (queue l) < queueLen then
                                     (l\<lparr>queue := queue l @ [c]\<rparr>,
                                      [OpenConnection connScope, AddConn c])
                                   else
                                     (l, [OpenConnection connScope, AddConn c,
                                          Debugw ''accept queue full, dropping incoming connection'',
                                          CloseWithError sess 1, ScopeDone connScope])))))"

text \<open>
  The case of the select statement of \<^verbatim>\<open>Accept\<close> that the Go scheduler picks when
  both are ready (the language picks one of the ready cases at random).
\<close>

datatype accept_case = PickCtxDone | PickQueue

text \<open>
  listener.go, lines 152-159. \<open>None\<close> is a call that stays blocked: the context is live
  and the queue is empty.
\<close>

definition Accept :: "accept_case \<Rightarrow> listener \<Rightarrow> (listener \<times> (error + conn)) option" where
  "Accept pick l =
     (if ctxDone l \<and> queue l \<noteq> [] then
        (case pick of
           PickCtxDone \<Rightarrow> Some (l, Inl ErrClosed)
         | PickQueue \<Rightarrow> Some (l\<lparr>queue := tl (queue l)\<rparr>, Inr (hd (queue l))))
      else if ctxDone l then Some (l, Inl ErrClosed)
      else if queue l \<noteq> [] then Some (l\<lparr>queue := tl (queue l)\<rparr>, Inr (hd (queue l)))
      else None)"

text \<open>listener.go, lines 209-215, as far as the listener's own state goes.\<close>

definition Close :: "listener \<Rightarrow> listener" where
  "Close l = l\<lparr>ctxDone := True\<rparr>"

text \<open>
  The states a listener can be in: made by \<^verbatim>\<open>newListener\<close>, then any sequence of
  requests handled, connections accepted and closes.
\<close>

inductive reachable :: "listener \<Rightarrow> bool" where
  reachable_new: "newListener localMultiaddr hasGater static = Inr l \<Longrightarrow> reachable l"
| reachable_httpHandler: "reachable l \<Longrightarrow> httpHandler env l = (l', es) \<Longrightarrow> reachable l'"
| reachable_Accept: "reachable l \<Longrightarrow> Accept pick l = Some (l', r) \<Longrightarrow> reachable l'"
| reachable_Close: "reachable l \<Longrightarrow> reachable (Close l)"

section \<open>Example inputs\<close>

text \<open>
  Inputs for the worked examples below: two kinds of address, a dial response, and
  collaborators that open the stream, accept every write and answer every read with the
  message \<open>m\<close>, while the dial-back select fires with \<open>sel\<close>.
\<close>

definition ip4_udp :: "nat list \<Rightarrow> nat list \<Rightarrow> Multiaddr" where
  "ip4_udp host port = Some [(\<lparr>Name = ''ip4'', Code = 4\<rparr>, host), (\<lparr>Name = ''udp'', Code = 273\<rparr>, port)]"

definition ip6_udp :: "nat list \<Rightarrow> nat list \<Rightarrow> Multiaddr" where
  "ip6_udp host port = Some [(\<lparr>Name = ''ip6'', Code = 41\<rparr>, host), (\<lparr>Name = ''udp'', Code = 273\<rparr>, port)]"

definition answering :: "Message \<Rightarrow> select_case \<Rightarrow> cr_env" where
  "answering m sel =
     \<lparr>newStream = None, setService = None, reserveMemory = None, randUint64 = 7,
      writeMsg = (\<lambda>k. None), readMsg = (\<lambda>k. Inr m), selectDialBack = sel,
      maxHandshakeSizeBytes = 100000\<rparr>"

text \<open>The same, with \<open>m0\<close> as the first message read and \<open>m1\<close> as every later one.\<close>

definition answeringSeq :: "Message \<Rightarrow> Message \<Rightarrow> select_case \<Rightarrow> cr_env" where
  "answeringSeq m0 m1 sel =
     \<lparr>newStream = None, setService = None, reserveMemory = None, randUint64 = 7,
      writeMsg = (\<lambda>k. None), readMsg = (\<lambda>k. if k = 0 then Inr m0 else Inr m1),
      selectDialBack = sel, maxHandshakeSizeBytes = 100000\<rparr>"

definition dialResponse :: "int \<Rightarrow> 32 word \<Rightarrow> int \<Rightarrow> DialResponse" where
  "dialResponse st i ds = \<lparr>resp_Status = st, resp_AddrIdx = i, resp_DialStatus = ds\<rparr>"

definition dialDataRequest :: "32 word \<Rightarrow> 64 word \<Rightarrow> DialDataRequest" where
  "dialDataRequest i n = \<lparr>req_AddrIdx = i, req_NumBytes = n\<rparr>"

text \<open>
  For the listener: a request that passes every step, the connection it gives, and a
  listener with a gater, given by whether its context is cancelled and by its queue.
\<close>

definition okRequest :: req_env where
  "okRequest =
     \<lparr>queryType = Some [''noise''],
      remoteMultiaddr = Inr (ip4_udp [203, 0, 113, 9] [4, 210]),
      interceptAccept = True,
      openConnection = Inr 11,
      upgrade = Inr 21,
      hsLocalAddr = Inr (ip4_udp [192, 168, 1, 5] [34, 184]),
      hsRemoteAddr = Inr (ip4_udp [203, 0, 113, 9] [4, 210]),
      hsAcceptStream = None,
      hsWithSessionOptions = None,
      hsSecureInbound = Inr 31,
      interceptSecured = True,
      setPeer = None\<rparr>"

definition okConn :: conn where
  "okConn =
     \<lparr>conn_sess = 21,
      conn_sconn = \<lparr>RemotePeer = 31, local = ip4_udp [192, 168, 1, 5] [34, 184],
                     remote = ip4_udp [203, 0, 113, 9] [4, 210]\<rparr>,
      conn_scope = 11\<rparr>"

definition listenerWith :: "bool \<Rightarrow> conn list \<Rightarrow> listener" where
  "listenerWith done q =
     \<lparr>gater = True, isStaticTLSConf = False, multiaddr = ip4_udp [192, 168, 1, 5] [34, 184],
      ctxDone = done, queue = q\<rparr>"

section \<open>Properties of the address-consistency check\<close>

lemma EqualFunc_list_all2: "EqualFunc xs ys eq = list_all2 eq xs ys"
  by (induction xs ys eq rule: EqualFunc.induct) auto

lemma EqualFunc_Code:
  "EqualFunc xs ys (\<lambda>p1 p2. Code p1 = Code p2) = (map Code xs = map Code ys)"
  unfolding EqualFunc_list_all2
  by (induction xs arbitrary: ys) (auto simp: list_all2_Cons1)

text \<open>
  Claim C7. The address-consistency check is true exactly when both addresses are
  defined (not nil) and their ordered sequences of protocol codes are equal element by
  element. The values of the components play no part, and a nil address on either side
  makes the check false.
\<close>

theorem areAddrsConsistent_iff:
  "areAddrsConsistent a b =
     (a \<noteq> None \<and> b \<noteq> None \<and>
      map Code (Protocols (the a)) = map Code (Protocols (the b)))"
  by (simp add: areAddrsConsistent_def EqualFunc_Code)

theorem areAddrsConsistent_iff_witness:
  "areAddrsConsistent
      (Some [(\<lparr>Name = ''ip4'', Code = 4\<rparr>, [127, 0, 0, 1]), (\<lparr>Name = ''udp'', Code = 273\<rparr>, [4, 210])])
      (Some [(\<lparr>Name = ''ip4'', Code = 4\<rparr>, [10, 0, 0, 7]), (\<lparr>Name = ''udp'', Code = 273\<rparr>, [16, 225])])
   \<and> \<not> areAddrsConsistent
      (Some [(\<lparr>Name = ''ip4'', Code = 4\<rparr>, [127, 0, 0, 1]), (\<lparr>Name = ''udp'', Code = 273\<rparr>, [4, 210])])
      (Some [(\<lparr>Name = ''ip6'', Code = 41\<rparr>, [0, 1]), (\<lparr>Name = ''udp'', Code = 273\<rparr>, [4, 210])])
   \<and> \<not> areAddrsConsistent None
      (Some [(\<lparr>Name = ''ip4'', Code = 4\<rparr>, [127, 0, 0, 1])])
   \<and> \<not> areAddrsConsistent
      (Some [(\<lparr>Name = ''ip4'', Code = 4\<rparr>, [127, 0, 0, 1])]) None
   \<and> \<not> areAddrsConsistent None None"
  by (simp add: areAddrsConsistent_iff Protocols_def)

section \<open>Properties of the reachability client\<close>

subsection \<open>The loop of sendDialData\<close>



text \<open>With a filler buffer that is not empty the loop ends: each round sends at least one byte.\<close>

lemma sendDialData_loop_returns:
  assumes "dl \<noteq> []"
  shows "\<exists>r. sendDialData_loop wr dl data remain k tr = Some r"
proof (induction "nat remain" arbitrary: remain data k tr rule: less_induct)
  case less
  show ?case
  proof (cases "remain > 0")
    case False
    then show ?thesis by (subst sendDialData_loop.simps) simp
  next
    case True
    let ?end = "if remain > int (length dl) then int (length dl) else remain"
    from assms True have pos: "?end > 0" by auto
    with True have "nat (remain - ?end) < nat remain" by auto
    from less[OF this] show ?thesis
      by (subst sendDialData_loop.simps) (auto simp: Let_def split: option.splits)
  qed
qed


lemma sendDialData_returns:
  assumes "dialData ac \<noteq> []"
  shows "\<exists>r. sendDialData wr ac req k tr = Some r"
  unfolding sendDialData_def Let_def by (rule sendDialData_loop_returns [OF assms])

lemma CheckReachability_exchange_returns:
  assumes "dialData ac \<noteq> []"
  shows "\<exists>r. CheckReachability_exchange env ac hp lp nonce = Some r"
proof -
  have nn: "sendDialData (writeMsg env) ac req (Suc 0) tr = None \<Longrightarrow> False" for req tr
    using sendDialData_returns [OF assms, of "writeMsg env" req "Suc 0" tr] by auto
  show ?thesis
    by (auto simp: CheckReachability_exchange_def Let_def
             split: option.splits sum.splits Message.splits if_splits prod.splits
             dest: nn)
qed

lemma CheckReachability_returns:
  assumes "dialData ac \<noteq> []"
  shows "\<exists>r. CheckReachability env ac hp lp = Some r"
proof -
  have nn: "CheckReachability_exchange env ac' hp lp nonce = None \<Longrightarrow> dialData ac' = dialData ac
      \<Longrightarrow> False" for ac' nonce
    using CheckReachability_exchange_returns [of ac' env hp lp nonce] assms by auto
  show ?thesis
    by (auto simp: CheckReachability_def Let_def split: option.splits prod.splits dest!: nn)
qed

subsection \<open>The dial response read\<close>




subsection \<open>Runs of the example collaborators\<close>



subsection \<open>The result of a dial response\<close>




subsection \<open>Statuses that are errors\<close>



subsection \<open>Dial data requests that are refused\<close>

text \<open>
  Claim C3, as amended. When the first message \<^verbatim>\<open>CheckReachability\<close> reads in reply
  to its dial request is a dial data request whose address index is at least the number
  of high-priority addresses, or whose byte count is above \<^verbatim>\<open>maxHandshakeSizeBytes\<close>:
  a call whose stream opens, whose addresses are all defined and whose request is
  written returns the low-priority error of line 307 or the too-high error of line 311,
  having written the dial request, read the dial data request and reset the stream, and
  nothing more; and every call that reads the request returns that error, resets the
  stream and writes no dial data response.
\<close>

theorem CheckReachability_rejects_dial_data_request:
  assumes "readMsg env 0 = Inr (DialDataRequestMsg req)"
    and "length hp \<le> unat (req_AddrIdx req) \<or> maxHandshakeSizeBytes env < unat (req_NumBytes req)"
  shows "(newStream env = None \<and> setService env = None \<and> reserveMemory env = None \<and>
          list_all (\<lambda>a. a \<noteq> None) (hp @ lp) \<and> writeMsg env 0 = None \<longrightarrow>
            (\<exists>ac'. CheckReachability env ac hp lp =
               Some (ac',
                     [EvReserveMemory, EvSetDeadline,
                      EvWriteMsg (DialRequestMsg (map the (hp @ lp)) (randUint64 env)),
                      EvReadMsg (Inr (DialDataRequestMsg req)), EvReset, EvClose, EvReleaseMemory],
                     Return (Inl (if length hp \<le> unat (req_AddrIdx req)
                                  then Errorf ''dial data requested for low priority address'' []
                                  else Errorf ''dial data requested too high: %d''
                                         [uint (req_NumBytes req)]))))) \<and>
         (\<forall>ac' tr out.
            CheckReachability env ac hp lp = Some (ac', tr, out) \<and>
            EvReadMsg (Inr (DialDataRequestMsg req)) \<in> set tr \<longrightarrow>
              out = Return (Inl (if length hp \<le> unat (req_AddrIdx req)
                                 then Errorf ''dial data requested for low priority address'' []
                                 else Errorf ''dial data requested too high: %d''
                                        [uint (req_NumBytes req)])) \<and>
              (\<forall>d. EvWriteMsg (DialDataResponseMsg d) \<notin> set tr) \<and>
              EvReset \<in> set tr)"
proof -
  have a: "newStream env = None \<and> setService env = None \<and> reserveMemory env = None \<and>
          list_all (\<lambda>a. a \<noteq> None) (hp @ lp) \<and> writeMsg env 0 = None \<longrightarrow>
            (\<exists>ac'. CheckReachability env ac hp lp =
               Some (ac',
                     [EvReserveMemory, EvSetDeadline,
                      EvWriteMsg (DialRequestMsg (map the (hp @ lp)) (randUint64 env)),
                      EvReadMsg (Inr (DialDataRequestMsg req)), EvReset, EvClose, EvReleaseMemory],
                     Return (Inl (if length hp \<le> unat (req_AddrIdx req)
                                  then Errorf ''dial data requested for low priority address'' []
                                  else Errorf ''dial data requested too high: %d''
                                         [uint (req_NumBytes req)]))))"
    using assms
    by (auto simp: CheckReachability_def CheckReachability_exchange_def newDialRequest_def Let_def)
  have b: "out = Return (Inl (if length hp \<le> unat (req_AddrIdx req)
                                 then Errorf ''dial data requested for low priority address'' []
                                 else Errorf ''dial data requested too high: %d''
                                        [uint (req_NumBytes req)])) \<and>
              (\<forall>d. EvWriteMsg (DialDataResponseMsg d) \<notin> set tr) \<and>
              EvReset \<in> set tr"
    if "CheckReachability env ac hp lp = Some (ac', tr, out)"
      and "EvReadMsg (Inr (DialDataRequestMsg req)) \<in> set tr" for ac' tr out
    using that assms
    by (auto simp: CheckReachability_def CheckReachability_exchange_def newDialRequest_def Let_def
          split: option.splits sum.splits if_splits prod.splits outcome.splits)
  from a b show ?thesis by blast
qed

theorem CheckReachability_rejects_dial_data_request_witness:
  "(\<exists>ac'.
      CheckReachability (answering (DialDataRequestMsg (dialDataRequest 2 10)) TimerC) NewClient
        [ip4_udp [192, 168, 1, 5] [34, 184], ip6_udp [32, 1, 13, 184] [34, 184]]
        [ip4_udp [10, 0, 0, 2] [34, 184]] =
      Some (ac',
            [EvReserveMemory, EvSetDeadline,
             EvWriteMsg (DialRequestMsg
               (map the [ip4_udp [192, 168, 1, 5] [34, 184], ip6_udp [32, 1, 13, 184] [34, 184],
                         ip4_udp [10, 0, 0, 2] [34, 184]]) 7),
             EvReadMsg (Inr (DialDataRequestMsg (dialDataRequest 2 10))), EvReset, EvClose,
             EvReleaseMemory],
            Return (Inl (Errorf ''dial data requested for low priority address'' [])))) \<and>
   (\<exists>ac'.
      CheckReachability (answering (DialDataRequestMsg (dialDataRequest 1 100001)) TimerC) NewClient
        [ip4_udp [192, 168, 1, 5] [34, 184], ip6_udp [32, 1, 13, 184] [34, 184]]
        [ip4_udp [10, 0, 0, 2] [34, 184]] =
      Some (ac',
            [EvReserveMemory, EvSetDeadline,
             EvWriteMsg (DialRequestMsg
               (map the [ip4_udp [192, 168, 1, 5] [34, 184], ip6_udp [32, 1, 13, 184] [34, 184],
                         ip4_udp [10, 0, 0, 2] [34, 184]]) 7),
             EvReadMsg (Inr (DialDataRequestMsg (dialDataRequest 1 100001))), EvReset, EvClose,
             EvReleaseMemory],
            Return (Inl (Errorf ''dial data requested too high: %d'' [100001]))))"
proof -
  let ?hp = "[ip4_udp [192, 168, 1, 5] [34, 184], ip6_udp [32, 1, 13, 184] [34, 184]]"
  let ?lp = "[ip4_udp [10, 0, 0, 2] [34, 184]]"
  have addrs: "list_all (\<lambda>a. a \<noteq> None) (?hp @ ?lp)" by (simp add: ip4_udp_def ip6_udp_def)
  have e: "newStream (answering m TimerC) = None" "setService (answering m TimerC) = None"
    "reserveMemory (answering m TimerC) = None" "writeMsg (answering m TimerC) 0 = None"
    "readMsg (answering m TimerC) 0 = Inr m" "randUint64 (answering m TimerC) = 7"
    "maxHandshakeSizeBytes (answering m TimerC) = 100000" for m
    by (simp_all add: answering_def)
  have b1: "length ?hp \<le> unat (req_AddrIdx (dialDataRequest 2 10)) \<or>
      maxHandshakeSizeBytes (answering (DialDataRequestMsg (dialDataRequest 2 10)) TimerC)
        < unat (req_NumBytes (dialDataRequest 2 10))"
    by (simp add: dialDataRequest_def)
  have b2: "length ?hp \<le> unat (req_AddrIdx (dialDataRequest 1 100001)) \<or>
      maxHandshakeSizeBytes (answering (DialDataRequestMsg (dialDataRequest 1 100001)) TimerC)
        < unat (req_NumBytes (dialDataRequest 1 100001))"
    by (simp add: dialDataRequest_def e)
  have i1: "length ?hp \<le> unat (req_AddrIdx (dialDataRequest 2 10))"
    by (simp add: dialDataRequest_def)
  have i2: "\<not> length ?hp \<le> unat (req_AddrIdx (dialDataRequest 1 100001))"
    "uint (req_NumBytes (dialDataRequest 1 100001)) = 100001"
    by (simp_all add: dialDataRequest_def)
  from CheckReachability_rejects_dial_data_request [OF e(5) b1, of ?lp NewClient]
    CheckReachability_rejects_dial_data_request [OF e(5) b2, of ?lp NewClient]
  show ?thesis
    using addrs by (simp only: e i1 i2 if_True if_False simp_thms append.simps)
qed

text \<open>
  The claim as first stated speaks of every dial data request received. One received
  as the second message, after the data for a first, valid request was sent, is an
  invalid response type (lines 321-324): the call returns an error, but a dial data
  response has been written by then.
\<close>

theorem CheckReachability_rejects_dial_data_request_counterexample:
  "length [ip4_udp [192, 168, 1, 5] [34, 184]] \<le> unat (req_AddrIdx (dialDataRequest 5 10)) \<and>
   map_option snd
     (CheckReachability
        (answeringSeq (DialDataRequestMsg (dialDataRequest 0 10))
           (DialDataRequestMsg (dialDataRequest 5 10)) TimerC)
        NewClient [ip4_udp [192, 168, 1, 5] [34, 184]] []) =
     Some ([EvReserveMemory, EvSetDeadline,
            EvWriteMsg (DialRequestMsg [the (ip4_udp [192, 168, 1, 5] [34, 184])] 7),
            EvReadMsg (Inr (DialDataRequestMsg (dialDataRequest 0 10))),
            EvWriteMsg (DialDataResponseMsg (replicate 10 0)),
            EvReadMsg (Inr (DialDataRequestMsg (dialDataRequest 5 10))),
            EvReset, EvClose, EvReleaseMemory],
           Return (Inl (Errorf ''invalid response type: %T'' [])))"
proof -
  have loop: "sendDialData_loop (\<lambda>k. None) (replicate 4096 0) (replicate 4096 0) 10 k tr =
      Some (tr @ [EvWriteMsg (DialDataResponseMsg (replicate 10 0))], None)" for k tr
    by (subst sendDialData_loop.simps, simp add: Let_def, subst sendDialData_loop.simps, simp)
  show ?thesis
    by (simp add: CheckReachability_def CheckReachability_exchange_def newDialRequest_def
          sendDialData_def loop
          answeringSeq_def ip4_udp_def dialDataRequest_def Let_def NewClient_def)
qed

subsection \<open>The life of a nonce\<close>

text \<open>
  Claim C4. A call of \<^verbatim>\<open>CheckReachability\<close> registers its nonce once the stream is
  open, attached to the service and has its memory reserved. Whenever such a call ends
  (with a result, with any error, after the dial-back wait timed out, or in a panic),
  the map has no entry for the nonce, and its other entries are as before the call. By
  \<open>CheckReachability_returns\<close> the call does end when the filler buffer is not empty.
\<close>

theorem CheckReachability_removes_nonce:
  assumes "newStream env = None" and "setService env = None" and "reserveMemory env = None"
    and "CheckReachability env ac hp lp = Some (ac', tr, out)"
  shows "dialBackQueues ac' (randUint64 env) = None \<and>
         (\<forall>n. n \<noteq> randUint64 env \<longrightarrow> dialBackQueues ac' n = dialBackQueues ac n)"
  using assms
  by (auto simp: CheckReachability_def Let_def split: option.splits prod.splits)

theorem CheckReachability_removes_nonce_witness:
  "\<exists>ac' tr out.
     CheckReachability
       (answering (DialResponseMsg (dialResponse DialResponse_OK 0 DialStatus_OK)) CtxDone)
       (NewClient\<lparr>dialBackQueues := [7 \<mapsto> 3, 8 \<mapsto> 4]\<rparr>)
       [ip4_udp [192, 168, 1, 5] [34, 184]] [] = Some (ac', tr, out) \<and>
     dialBackQueues ac' 7 = None \<and> dialBackQueues ac' 8 = Some 4"
proof -
  let ?env = "answering (DialResponseMsg (dialResponse DialResponse_OK 0 DialStatus_OK)) CtxDone"
  let ?ac = "NewClient\<lparr>dialBackQueues := [7 \<mapsto> 3, 8 \<mapsto> 4]\<rparr>"
  let ?hp = "[ip4_udp [192, 168, 1, 5] [34, 184]]"
  obtain r where "CheckReachability ?env ?ac ?hp [] = Some r"
    using CheckReachability_returns [of ?ac ?env ?hp "[]"] by (auto simp: NewClient_def)
  then obtain ac' tr out where run: "CheckReachability ?env ?ac ?hp [] = Some (ac', tr, out)"
    by (cases r) auto
  have "newStream ?env = None" "setService ?env = None" "reserveMemory ?env = None"
    "randUint64 ?env = 7"
    by (simp_all add: answering_def)
  with CheckReachability_removes_nonce [OF _ _ _ run] run show ?thesis
    by (auto simp: NewClient_def)
qed

subsection \<open>The dial-back handler\<close>

text \<open>
  Claim C10. \<^verbatim>\<open>handleDialBack\<close> leaves the nonce-to-channel map as it found it, on
  every stream. When the nonce it reads has no entry, the lookup gives the nil channel,
  the send falls to the default case, and the whole client state is unchanged; the
  handler then ends in the ordinary way, closing the stream and releasing its memory
  without a reset.
\<close>

theorem handleDialBack_map_unchanged:
  "dialBackQueues (fst (handleDialBack env ac)) = dialBackQueues ac \<and>
   (\<forall>nonce. db_readMsg env = Inr nonce \<and> dialBackQueues ac nonce = None \<longrightarrow>
      fst (handleDialBack env ac) = ac) \<and>
   (\<forall>nonce. db_setService env = None \<and> db_reserveMemory env = None \<and>
      db_readMsg env = Inr nonce \<and> dialBackQueues ac nonce = None \<longrightarrow>
      handleDialBack env ac =
        (ac, [EvReserveMemory, EvSetDeadline, EvReadDialBack (Inr nonce), EvClose, EvReleaseMemory]))"
  by (auto simp: handleDialBack_def trySend_def Let_def split: option.splits sum.splits)

theorem handleDialBack_map_unchanged_witness:
  "handleDialBack
     \<lparr>db_setService = None, db_reserveMemory = None, db_readMsg = Inr 9,
      db_localMultiaddr = ip4_udp [192, 168, 1, 5] [34, 184]\<rparr>
     (NewClient\<lparr>dialBackQueues := [7 \<mapsto> 3]\<rparr>) =
   (NewClient\<lparr>dialBackQueues := [7 \<mapsto> 3]\<rparr>,
    [EvReserveMemory, EvSetDeadline, EvReadDialBack (Inr 9), EvClose, EvReleaseMemory])"
  using handleDialBack_map_unchanged
    [of "\<lparr>db_setService = None, db_reserveMemory = None, db_readMsg = Inr 9,
          db_localMultiaddr = ip4_udp [192, 168, 1, 5] [34, 184]\<rparr>"
        "NewClient\<lparr>dialBackQueues := [7 \<mapsto> 3]\<rparr>"]
  by (simp add: NewClient_def)

section \<open>Properties of the listener\<close>

subsection \<open>Runs of the example request and reachable listeners\<close>

lemma httpHandler_okRequest:
  "httpHandler okRequest (listenerWith d q) =
     (if length q < queueLen
      then (listenerWith d (q @ [okConn]), [OpenConnection 11, AddConn okConn])
      else (listenerWith d q,
            [OpenConnection 11, AddConn okConn,
             Debugw ''accept queue full, dropping incoming connection'',
             CloseWithError 21 1, ScopeDone 11]))"
  by (simp add: httpHandler_def handshake_def okRequest_def okConn_def listenerWith_def Let_def)

lemma reachable_fresh: "reachable (listenerWith False [])"
  by (rule reachable_new [of "Inr (ip4_udp [192, 168, 1, 5] [34, 184])" True False])
     (simp add: newListener_def listenerWith_def)

lemma reachable_filled:
  "n \<le> queueLen \<Longrightarrow> reachable (listenerWith False (replicate n okConn))"
proof (induction n)
  case 0
  show ?case using reachable_fresh by simp
next
  case (Suc n)
  then have r: "reachable (listenerWith False (replicate n okConn))" and lt: "n < queueLen"
    by simp_all
  have "httpHandler okRequest (listenerWith False (replicate n okConn)) =
          (listenerWith False (replicate (Suc n) okConn), [OpenConnection 11, AddConn okConn])"
    using lt by (simp add: httpHandler_okRequest replicate_append_same)
  from reachable_httpHandler [OF r this] show ?case .
qed

lemma reachable_closed:
  "n \<le> queueLen \<Longrightarrow> reachable (listenerWith True (replicate n okConn))"
  using reachable_Close [OF reachable_filled [of n]]
  by (simp add: Close_def listenerWith_def)

subsection \<open>What a request does to the queue\<close>

lemma httpHandler_queue:
  assumes "httpHandler env l = (l', es)"
  shows "l' = l \<or> (length (queue l) < queueLen \<and> (\<exists>c. l' = l\<lparr>queue := queue l @ [c]\<rparr>))"
  using assms
  by (auto simp: httpHandler_def Let_def split: if_splits sum.splits option.splits)

lemma reachable_queue_bounded: "reachable l \<Longrightarrow> length (queue l) \<le> queueLen"
proof (induction rule: reachable.induct)
  case (reachable_new localMultiaddr hasGater static l)
  then show ?case by (auto simp: newListener_def split: sum.splits)
next
  case (reachable_httpHandler l env l' es)
  from httpHandler_queue [OF reachable_httpHandler(2)] reachable_httpHandler(3)
  show ?case by auto
next
  case (reachable_Accept l pick l' r)
  then show ?case by (auto simp: Accept_def split: if_splits accept_case.splits)
next
  case (reachable_Close l)
  then show ?case by (simp add: Close_def)
qed

lemma httpHandler_okRequest_any:
  "httpHandler okRequest l =
     (if length (queue l) < queueLen
      then (l\<lparr>queue := queue l @ [okConn]\<rparr>, [OpenConnection 11, AddConn okConn])
      else (l, [OpenConnection 11, AddConn okConn,
                Debugw ''accept queue full, dropping incoming connection'',
                CloseWithError 21 1, ScopeDone 11]))"
  by (simp add: httpHandler_def handshake_def okRequest_def okConn_def Let_def)

lemma reachable_fill:
  "reachable l \<Longrightarrow> length (queue l) + n \<le> queueLen \<Longrightarrow>
   reachable (l\<lparr>queue := queue l @ replicate n okConn\<rparr>)"
proof (induction n)
  case 0
  then show ?case by simp
next
  case (Suc n)
  let ?l = "l\<lparr>queue := queue l @ replicate n okConn\<rparr>"
  from Suc have r: "reachable ?l" and lt: "length (queue ?l) < queueLen" by simp_all
  have "httpHandler okRequest ?l = (?l\<lparr>queue := queue ?l @ [okConn]\<rparr>, [OpenConnection 11, AddConn okConn])"
    using lt by (simp add: httpHandler_okRequest_any)
  from reachable_httpHandler [OF r this] show ?case
    by (simp add: replicate_append_same)
qed

lemma reachable_full_no_gater:
  "reachable ((listenerWith False (replicate 16 okConn))\<lparr>gater := False\<rparr>)"
proof -
  have "reachable ((listenerWith False [])\<lparr>gater := False\<rparr>)"
    by (rule reachable_new [of "Inr (ip4_udp [192, 168, 1, 5] [34, 184])" False False])
       (simp add: newListener_def listenerWith_def)
  from reachable_fill [OF this, of 16] show ?thesis
    by (simp add: listenerWith_def queueLen_def)
qed

lemma handshake_okRequest:
  "handshake okRequest l sess =
     Inr \<lparr>RemotePeer = 31, local = ip4_udp [192, 168, 1, 5] [34, 184],
          remote = ip4_udp [203, 0, 113, 9] [4, 210]\<rparr>"
  by (simp add: handshake_def okRequest_def)

subsection \<open>The ways out of a request that holds a reservation\<close>

lemma httpHandler_enqueue:
  assumes "queryType env = Some [''noise'']" and "remoteMultiaddr env = Inr ra"
    and "gater l \<longrightarrow> interceptAccept env" and "openConnection env = Inr s"
    and "upgrade env = Inr sess" and "handshake env l sess = Inr sconn"
    and "gater l \<longrightarrow> interceptSecured env" and "setPeer env = None"
  shows "httpHandler env l =
     (if length (queue l) < queueLen
      then (l\<lparr>queue := queue l @ [newConn sess sconn s]\<rparr>,
            [OpenConnection s, AddConn (newConn sess sconn s)])
      else (l, [OpenConnection s, AddConn (newConn sess sconn s),
                Debugw ''accept queue full, dropping incoming connection'',
                CloseWithError sess 1, ScopeDone s]))"
  using assms by (auto simp: httpHandler_def newConn_def Let_def)

lemma httpHandler_upgrade_failed:
  assumes "queryType env = Some [''noise'']" and "remoteMultiaddr env = Inr ra"
    and "gater l \<longrightarrow> interceptAccept env" and "openConnection env = Inr s"
    and "upgrade env = Inl err"
  shows "httpHandler env l =
     (l, [OpenConnection s, Debugw ''upgrade failed'', WriteHeader 500, ScopeDone s])"
  using assms by (auto simp: httpHandler_def)

lemma httpHandler_handshake_failed:
  assumes "queryType env = Some [''noise'']" and "remoteMultiaddr env = Inr ra"
    and "gater l \<longrightarrow> interceptAccept env" and "openConnection env = Inr s"
    and "upgrade env = Inr sess" and "handshake env l sess = Inl err"
  shows "httpHandler env l =
     (l, [OpenConnection s, Debugw ''handshake failed'', CloseWithError sess 1, ScopeDone s])"
  using assms by (auto simp: httpHandler_def)

lemma httpHandler_secured_rejected:
  assumes "queryType env = Some [''noise'']" and "remoteMultiaddr env = Inr ra"
    and "gater l \<longrightarrow> interceptAccept env" and "openConnection env = Inr s"
    and "upgrade env = Inr sess" and "handshake env l sess = Inr sconn"
    and "gater l" and "\<not> interceptSecured env"
  shows "httpHandler env l =
     (l, [OpenConnection s, CloseWithError sess errorCodeConnectionGating, ScopeDone s])"
  using assms by (auto simp: httpHandler_def)

lemma httpHandler_setPeer_failed:
  assumes "queryType env = Some [''noise'']" and "remoteMultiaddr env = Inr ra"
    and "gater l \<longrightarrow> interceptAccept env" and "openConnection env = Inr s"
    and "upgrade env = Inr sess" and "handshake env l sess = Inr sconn"
    and "gater l \<longrightarrow> interceptSecured env" and "setPeer env = Some err"
  shows "httpHandler env l =
     (l, [OpenConnection s, Debugw ''resource manager blocked incoming connection for peer'',
          CloseWithError sess 1, ScopeDone s])"
  using assms by (auto simp: httpHandler_def)

lemma httpHandler_count:
  assumes "queryType env = Some [''noise'']" and "remoteMultiaddr env = Inr ra"
    and "gater l \<longrightarrow> interceptAccept env" and "openConnection env = Inr s"
  shows "count_list (snd (httpHandler env l)) (OpenConnection s) = 1 \<and>
         ((count_list (snd (httpHandler env l)) (ScopeDone s) = 1 \<and>
           queue (fst (httpHandler env l)) = queue l) \<or>
          (count_list (snd (httpHandler env l)) (ScopeDone s) = 0 \<and>
           (\<exists>c. conn_scope c = s \<and> AddConn c \<in> set (snd (httpHandler env l)) \<and>
                queue (fst (httpHandler env l)) = queue l @ [c])))"
  using assms
  by (auto simp: httpHandler_def Let_def split: sum.splits option.splits)

subsection \<open>The bound of the accept queue\<close>

text \<open>
  Claim C5. In every state the listener can reach, the accept queue holds at most
  \<open>queueLen\<close> = 16 connections. A request that passes every step up to the send on the
  queue always returns: with room in the queue its connection is appended; with a full
  queue the listener is unchanged, the connection is dropped, its session is closed with
  error code 1 and its reservation is released.
\<close>

theorem accept_queue_bounded:
  "(reachable l \<longrightarrow> length (queue l) \<le> queueLen) \<and>
   (\<forall>env ra s sess sconn.
      queryType env = Some [''noise''] \<and> remoteMultiaddr env = Inr ra \<and>
      (gater l \<longrightarrow> interceptAccept env) \<and> openConnection env = Inr s \<and>
      upgrade env = Inr sess \<and> handshake env l sess = Inr sconn \<and>
      (gater l \<longrightarrow> interceptSecured env) \<and> setPeer env = None \<longrightarrow>
      httpHandler env l =
        (if length (queue l) < queueLen
         then (l\<lparr>queue := queue l @ [newConn sess sconn s]\<rparr>,
               [OpenConnection s, AddConn (newConn sess sconn s)])
         else (l, [OpenConnection s, AddConn (newConn sess sconn s),
                   Debugw ''accept queue full, dropping incoming connection'',
                   CloseWithError sess 1, ScopeDone s])))"
proof (intro conjI allI impI)
  assume "reachable l"
  then show "length (queue l) \<le> queueLen" by (rule reachable_queue_bounded)
next
  fix env ra s sess sconn
  assume "queryType env = Some [''noise''] \<and> remoteMultiaddr env = Inr ra \<and>
      (gater l \<longrightarrow> interceptAccept env) \<and> openConnection env = Inr s \<and>
      upgrade env = Inr sess \<and> handshake env l sess = Inr sconn \<and>
      (gater l \<longrightarrow> interceptSecured env) \<and> setPeer env = None"
  then show "httpHandler env l =
        (if length (queue l) < queueLen
         then (l\<lparr>queue := queue l @ [newConn sess sconn s]\<rparr>,
               [OpenConnection s, AddConn (newConn sess sconn s)])
         else (l, [OpenConnection s, AddConn (newConn sess sconn s),
                   Debugw ''accept queue full, dropping incoming connection'',
                   CloseWithError sess 1, ScopeDone s]))"
    by (elim conjE) (rule httpHandler_enqueue)
qed

theorem accept_queue_bounded_witness:
  "length (queue (listenerWith False (replicate 16 okConn))) \<le> queueLen \<and>
   httpHandler okRequest (listenerWith False (replicate 16 okConn)) =
     (listenerWith False (replicate 16 okConn),
      [OpenConnection 11, AddConn okConn,
       Debugw ''accept queue full, dropping incoming connection'',
       CloseWithError 21 1, ScopeDone 11]) \<and>
   length (queue ((listenerWith False (replicate 16 okConn))\<lparr>gater := False\<rparr>)) \<le> queueLen \<and>
   httpHandler okRequest ((listenerWith False (replicate 16 okConn))\<lparr>gater := False\<rparr>) =
     ((listenerWith False (replicate 16 okConn))\<lparr>gater := False\<rparr>,
      [OpenConnection 11, AddConn okConn,
       Debugw ''accept queue full, dropping incoming connection'',
       CloseWithError 21 1, ScopeDone 11]) \<and>
   httpHandler okRequest (listenerWith False (replicate 15 okConn)) =
     (listenerWith False (replicate 16 okConn), [OpenConnection 11, AddConn okConn])"
proof -
  let ?l = "listenerWith False (replicate 16 okConn)"
  let ?m = "?l\<lparr>gater := False\<rparr>"
  let ?k = "listenerWith False (replicate 15 okConn)"
  have r: "reachable ?l" by (rule reachable_filled) (simp add: queueLen_def)
  have r': "reachable ?m" by (rule reachable_full_no_gater)
  have inp: "queryType okRequest = Some [''noise'']"
    "remoteMultiaddr okRequest = Inr (ip4_udp [203, 0, 113, 9] [4, 210])"
    "interceptAccept okRequest" "openConnection okRequest = Inr 11" "upgrade okRequest = Inr 21"
    "interceptSecured okRequest" "setPeer okRequest = None"
    by (simp_all add: okRequest_def)
  have c: "newConn 21 \<lparr>RemotePeer = 31, local = ip4_udp [192, 168, 1, 5] [34, 184],
          remote = ip4_udp [203, 0, 113, 9] [4, 210]\<rparr> 11 = okConn"
    by (simp add: newConn_def okConn_def)
  have q: "length (queue ?l) = 16" "length (queue ?m) = 16" "length (queue ?k) = 15"
    by (simp_all add: listenerWith_def)
  have q': "?k\<lparr>queue := queue ?k @ [okConn]\<rparr> = ?l"
    by (simp add: listenerWith_def numeral_eq_Suc)
  let ?ra = "ip4_udp [203, 0, 113, 9] [4, 210]"
  let ?sc = "\<lparr>RemotePeer = 31, local = ip4_udp [192, 168, 1, 5] [34, 184],
          remote = ip4_udp [203, 0, 113, 9] [4, 210]\<rparr>"
  have b1: "length (queue ?l) \<le> queueLen"
    using accept_queue_bounded [of ?l, THEN conjunct1] r by blast
  have b2: "length (queue ?m) \<le> queueLen"
    using accept_queue_bounded [of ?m, THEN conjunct1] r' by blast
  have h1: "httpHandler okRequest ?l =
        (if length (queue ?l) < queueLen
         then (?l\<lparr>queue := queue ?l @ [okConn]\<rparr>, [OpenConnection 11, AddConn okConn])
         else (?l, [OpenConnection 11, AddConn okConn,
                   Debugw ''accept queue full, dropping incoming connection'',
                   CloseWithError 21 1, ScopeDone 11]))"
    using accept_queue_bounded [of ?l, THEN conjunct2, rule_format, of okRequest ?ra 11 21 ?sc]
    by (simp only: inp handshake_okRequest c simp_thms)
  have h2: "httpHandler okRequest ?m =
        (if length (queue ?m) < queueLen
         then (?m\<lparr>queue := queue ?m @ [okConn]\<rparr>, [OpenConnection 11, AddConn okConn])
         else (?m, [OpenConnection 11, AddConn okConn,
                   Debugw ''accept queue full, dropping incoming connection'',
                   CloseWithError 21 1, ScopeDone 11]))"
    using accept_queue_bounded [of ?m, THEN conjunct2, rule_format, of okRequest ?ra 11 21 ?sc]
    by (simp only: inp handshake_okRequest c simp_thms)
  have h3: "httpHandler okRequest ?k =
        (if length (queue ?k) < queueLen
         then (?k\<lparr>queue := queue ?k @ [okConn]\<rparr>, [OpenConnection 11, AddConn okConn])
         else (?k, [OpenConnection 11, AddConn okConn,
                   Debugw ''accept queue full, dropping incoming connection'',
                   CloseWithError 21 1, ScopeDone 11]))"
    using accept_queue_bounded [of ?k, THEN conjunct2, rule_format, of okRequest ?ra 11 21 ?sc]
    by (simp only: inp handshake_okRequest c simp_thms)
  show ?thesis
    using b1 b2 h1 h2 h3 by (simp add: q q' queueLen_def)
qed

subsection \<open>One release for each reservation\<close>

text \<open>
  Claim C2. A request with the right selector, a translated remote address and the
  gater's consent, for which \<^verbatim>\<open>OpenConnection\<close> succeeds, opens its reservation once,
  and on every way out exactly one of two things has happened to it: either
  \<^verbatim>\<open>connScope.Done()\<close> was called once and the queue is as before, or \<^verbatim>\<open>Done\<close>
  was not called and the connection that holds the scope was appended to the queue. Way
  by way: an upgrade failure, a handshake failure, a rejection by the gater's secured
  hook, a \<^verbatim>\<open>SetPeer\<close> failure and a full queue each end with one \<^verbatim>\<open>Done\<close> and the
  listener unchanged; success ends with the connection in the queue and no \<^verbatim>\<open>Done\<close>.
\<close>

theorem httpHandler_releases_once:
  assumes "queryType env = Some [''noise'']" and "remoteMultiaddr env = Inr ra"
    and "gater l \<longrightarrow> interceptAccept env" and "openConnection env = Inr s"
  shows "count_list (snd (httpHandler env l)) (OpenConnection s) = 1 \<and>
         ((count_list (snd (httpHandler env l)) (ScopeDone s) = 1 \<and>
           queue (fst (httpHandler env l)) = queue l) \<or>
          (count_list (snd (httpHandler env l)) (ScopeDone s) = 0 \<and>
           (\<exists>c. conn_scope c = s \<and> AddConn c \<in> set (snd (httpHandler env l)) \<and>
                queue (fst (httpHandler env l)) = queue l @ [c]))) \<and>
         (\<forall>err. upgrade env = Inl err \<longrightarrow>
            httpHandler env l =
              (l, [OpenConnection s, Debugw ''upgrade failed'', WriteHeader 500, ScopeDone s])) \<and>
         (\<forall>sess err. upgrade env = Inr sess \<and> handshake env l sess = Inl err \<longrightarrow>
            httpHandler env l =
              (l, [OpenConnection s, Debugw ''handshake failed'', CloseWithError sess 1,
                   ScopeDone s])) \<and>
         (\<forall>sess sconn. upgrade env = Inr sess \<and> handshake env l sess = Inr sconn \<and>
            gater l \<and> \<not> interceptSecured env \<longrightarrow>
            httpHandler env l =
              (l, [OpenConnection s, CloseWithError sess errorCodeConnectionGating, ScopeDone s])) \<and>
         (\<forall>sess sconn err. upgrade env = Inr sess \<and> handshake env l sess = Inr sconn \<and>
            (gater l \<longrightarrow> interceptSecured env) \<and> setPeer env = Some err \<longrightarrow>
            httpHandler env l =
              (l, [OpenConnection s,
                   Debugw ''resource manager blocked incoming connection for peer'',
                   CloseWithError sess 1, ScopeDone s])) \<and>
         (\<forall>sess sconn. upgrade env = Inr sess \<and> handshake env l sess = Inr sconn \<and>
            (gater l \<longrightarrow> interceptSecured env) \<and> setPeer env = None \<and>
            \<not> length (queue l) < queueLen \<longrightarrow>
            httpHandler env l =
              (l, [OpenConnection s, AddConn (newConn sess sconn s),
                   Debugw ''accept queue full, dropping incoming connection'',
                   CloseWithError sess 1, ScopeDone s])) \<and>
         (\<forall>sess sconn. upgrade env = Inr sess \<and> handshake env l sess = Inr sconn \<and>
            (gater l \<longrightarrow> interceptSecured env) \<and> setPeer env = None \<and>
            length (queue l) < queueLen \<longrightarrow>
            httpHandler env l =
              (l\<lparr>queue := queue l @ [newConn sess sconn s]\<rparr>,
               [OpenConnection s, AddConn (newConn sess sconn s)]))"
proof (intro conjI allI impI)
  show "count_list (snd (httpHandler env l)) (OpenConnection s) = 1"
    using httpHandler_count [OF assms] by blast
  show "(count_list (snd (httpHandler env l)) (ScopeDone s) = 1 \<and>
           queue (fst (httpHandler env l)) = queue l) \<or>
          (count_list (snd (httpHandler env l)) (ScopeDone s) = 0 \<and>
           (\<exists>c. conn_scope c = s \<and> AddConn c \<in> set (snd (httpHandler env l)) \<and>
                queue (fst (httpHandler env l)) = queue l @ [c]))"
    using httpHandler_count [OF assms] by blast
next
  fix err assume "upgrade env = Inl err"
  then show "httpHandler env l =
      (l, [OpenConnection s, Debugw ''upgrade failed'', WriteHeader 500, ScopeDone s])"
    by (rule httpHandler_upgrade_failed [OF assms])
next
  fix sess err assume "upgrade env = Inr sess \<and> handshake env l sess = Inl err"
  then show "httpHandler env l =
      (l, [OpenConnection s, Debugw ''handshake failed'', CloseWithError sess 1, ScopeDone s])"
    by (elim conjE) (rule httpHandler_handshake_failed [OF assms])
next
  fix sess sconn
  assume "upgrade env = Inr sess \<and> handshake env l sess = Inr sconn \<and>
            gater l \<and> \<not> interceptSecured env"
  then show "httpHandler env l =
      (l, [OpenConnection s, CloseWithError sess errorCodeConnectionGating, ScopeDone s])"
    by (elim conjE) (rule httpHandler_secured_rejected [OF assms])
next
  fix sess sconn err
  assume "upgrade env = Inr sess \<and> handshake env l sess = Inr sconn \<and>
            (gater l \<longrightarrow> interceptSecured env) \<and> setPeer env = Some err"
  then show "httpHandler env l =
      (l, [OpenConnection s, Debugw ''resource manager blocked incoming connection for peer'',
           CloseWithError sess 1, ScopeDone s])"
    by (elim conjE) (rule httpHandler_setPeer_failed [OF assms])
next
  fix sess sconn
  assume "upgrade env = Inr sess \<and> handshake env l sess = Inr sconn \<and>
            (gater l \<longrightarrow> interceptSecured env) \<and> setPeer env = None \<and>
            \<not> length (queue l) < queueLen"
  then show "httpHandler env l =
      (l, [OpenConnection s, AddConn (newConn sess sconn s),
           Debugw ''accept queue full, dropping incoming connection'',
           CloseWithError sess 1, ScopeDone s])"
    using httpHandler_enqueue [OF assms, of sess sconn] by simp
next
  fix sess sconn
  assume "upgrade env = Inr sess \<and> handshake env l sess = Inr sconn \<and>
            (gater l \<longrightarrow> interceptSecured env) \<and> setPeer env = None \<and>
            length (queue l) < queueLen"
  then show "httpHandler env l =
      (l\<lparr>queue := queue l @ [newConn sess sconn s]\<rparr>,
       [OpenConnection s, AddConn (newConn sess sconn s)])"
    using httpHandler_enqueue [OF assms, of sess sconn] by simp
qed

theorem httpHandler_releases_once_witness:
  "httpHandler (okRequest\<lparr>upgrade := Inl (IOErr 4)\<rparr>) (listenerWith False []) =
     (listenerWith False [],
      [OpenConnection 11, Debugw ''upgrade failed'', WriteHeader 500, ScopeDone 11]) \<and>
   httpHandler (okRequest\<lparr>hsSecureInbound := Inl (IOErr 5)\<rparr>) (listenerWith False []) =
     (listenerWith False [],
      [OpenConnection 11, Debugw ''handshake failed'', CloseWithError 21 1, ScopeDone 11]) \<and>
   httpHandler (okRequest\<lparr>interceptSecured := False\<rparr>) (listenerWith False []) =
     (listenerWith False [],
      [OpenConnection 11, CloseWithError 21 errorCodeConnectionGating, ScopeDone 11]) \<and>
   httpHandler (okRequest\<lparr>setPeer := Some (IOErr 6)\<rparr>) (listenerWith False []) =
     (listenerWith False [],
      [OpenConnection 11, Debugw ''resource manager blocked incoming connection for peer'',
       CloseWithError 21 1, ScopeDone 11]) \<and>
   httpHandler okRequest (listenerWith False (replicate 16 okConn)) =
     (listenerWith False (replicate 16 okConn),
      [OpenConnection 11, AddConn okConn,
       Debugw ''accept queue full, dropping incoming connection'',
       CloseWithError 21 1, ScopeDone 11]) \<and>
   httpHandler okRequest (listenerWith False []) =
     (listenerWith False [okConn], [OpenConnection 11, AddConn okConn]) \<and>
   count_list (snd (httpHandler okRequest (listenerWith False []))) (OpenConnection 11) = 1"
proof -
  let ?ra = "ip4_udp [203, 0, 113, 9] [4, 210]"
  let ?sc = "\<lparr>RemotePeer = 31, local = ip4_udp [192, 168, 1, 5] [34, 184],
          remote = ip4_udp [203, 0, 113, 9] [4, 210]\<rparr>"
  let ?l = "listenerWith False []"
  let ?f = "listenerWith False (replicate 16 okConn)"
  let ?e1 = "okRequest\<lparr>upgrade := Inl (IOErr 4)\<rparr>"
  let ?e2 = "okRequest\<lparr>hsSecureInbound := Inl (IOErr 5)\<rparr>"
  let ?e3 = "okRequest\<lparr>interceptSecured := False\<rparr>"
  let ?e4 = "okRequest\<lparr>setPeer := Some (IOErr 6)\<rparr>"
  have g: "gater (listenerWith d q)" "queue (listenerWith d q) = q"
    "(listenerWith d q)\<lparr>queue := q'\<rparr> = listenerWith d q'" for d q q'
    by (simp_all add: listenerWith_def)
  have c: "newConn 21 ?sc 11 = okConn" by (simp add: newConn_def okConn_def)
  have i0: "queryType okRequest = Some [''noise'']" "remoteMultiaddr okRequest = Inr ?ra"
    "gater l \<longrightarrow> interceptAccept okRequest" "openConnection okRequest = Inr 11"
    "upgrade okRequest = Inr 21" "interceptSecured okRequest" "setPeer okRequest = None" for l
    by (simp_all add: okRequest_def)
  have i1: "queryType ?e1 = Some [''noise'']" "remoteMultiaddr ?e1 = Inr ?ra"
    "gater l \<longrightarrow> interceptAccept ?e1" "openConnection ?e1 = Inr 11"
    "upgrade ?e1 = Inl (IOErr 4)" for l
    by (simp_all add: okRequest_def)
  have i2: "queryType ?e2 = Some [''noise'']" "remoteMultiaddr ?e2 = Inr ?ra"
    "gater l \<longrightarrow> interceptAccept ?e2" "openConnection ?e2 = Inr 11"
    "upgrade ?e2 = Inr 21" "handshake ?e2 l 21 = Inl (IOErr 5)" for l
    by (simp_all add: okRequest_def handshake_def)
  have i3: "queryType ?e3 = Some [''noise'']" "remoteMultiaddr ?e3 = Inr ?ra"
    "gater l \<longrightarrow> interceptAccept ?e3" "openConnection ?e3 = Inr 11"
    "upgrade ?e3 = Inr 21" "handshake ?e3 l 21 = Inr ?sc" "\<not> interceptSecured ?e3" for l
    by (simp_all add: okRequest_def handshake_def)
  have i4: "queryType ?e4 = Some [''noise'']" "remoteMultiaddr ?e4 = Inr ?ra"
    "gater l \<longrightarrow> interceptAccept ?e4" "openConnection ?e4 = Inr 11"
    "upgrade ?e4 = Inr 21" "handshake ?e4 l 21 = Inr ?sc" "interceptSecured ?e4"
    "setPeer ?e4 = Some (IOErr 6)" for l
    by (simp_all add: okRequest_def handshake_def)
  have full: "\<not> length (queue ?f) < queueLen" and room: "length (queue ?l) < queueLen"
    and room': "length ([] :: conn list) < queueLen"
    by (simp_all add: g queueLen_def)
  note t0 = httpHandler_releases_once [OF i0(1-4)]
  have p1: "httpHandler ?e1 ?l =
      (?l, [OpenConnection 11, Debugw ''upgrade failed'', WriteHeader 500, ScopeDone 11])"
    using httpHandler_releases_once [OF i1(1-4), of ?l, THEN conjunct2, THEN conjunct2,
        THEN conjunct1, rule_format, of "IOErr 4"]
    by (simp only: i1 simp_thms)
  have p2: "httpHandler ?e2 ?l =
      (?l, [OpenConnection 11, Debugw ''handshake failed'', CloseWithError 21 1, ScopeDone 11])"
    using httpHandler_releases_once [OF i2(1-4), of ?l, THEN conjunct2, THEN conjunct2,
        THEN conjunct2, THEN conjunct1, rule_format, of 21 "IOErr 5"]
    by (simp only: i2 simp_thms)
  have p3: "httpHandler ?e3 ?l =
      (?l, [OpenConnection 11, CloseWithError 21 errorCodeConnectionGating, ScopeDone 11])"
    using httpHandler_releases_once [OF i3(1-4), of ?l, THEN conjunct2, THEN conjunct2,
        THEN conjunct2, THEN conjunct2, THEN conjunct1, rule_format, of 21 ?sc]
    by (simp only: i3 g simp_thms)
  have p4: "httpHandler ?e4 ?l =
      (?l, [OpenConnection 11, Debugw ''resource manager blocked incoming connection for peer'',
            CloseWithError 21 1, ScopeDone 11])"
    using httpHandler_releases_once [OF i4(1-4), of ?l, THEN conjunct2, THEN conjunct2,
        THEN conjunct2, THEN conjunct2, THEN conjunct2, THEN conjunct1, rule_format,
        of 21 ?sc "IOErr 6"]
    by (simp only: i4 simp_thms)
  have p5: "httpHandler okRequest ?f =
      (?f, [OpenConnection 11, AddConn okConn,
            Debugw ''accept queue full, dropping incoming connection'',
            CloseWithError 21 1, ScopeDone 11])"
    using t0 [of ?f, THEN conjunct2, THEN conjunct2, THEN conjunct2, THEN conjunct2,
        THEN conjunct2, THEN conjunct2, THEN conjunct1, rule_format, of 21 ?sc]
    by (simp only: i0 handshake_okRequest full c simp_thms)
  have p6: "httpHandler okRequest ?l = (listenerWith False [okConn], [OpenConnection 11, AddConn okConn])"
    using t0 [of ?l, THEN conjunct2, THEN conjunct2, THEN conjunct2, THEN conjunct2,
        THEN conjunct2, THEN conjunct2, THEN conjunct2, rule_format, of 21 ?sc]
    by (simp only: i0 handshake_okRequest room room' c g append_Nil simp_thms)
  have p7: "count_list (snd (httpHandler okRequest ?l)) (OpenConnection 11) = 1"
    using t0 [of ?l, THEN conjunct1] .
  from p1 p2 p3 p4 p5 p6 p7 show ?thesis by (intro conjI)
qed

subsection \<open>Accept\<close>

text \<open>
  Claim C8, as amended. \<^verbatim>\<open>Accept\<close> returns the closed error only when the context
  has been cancelled, and always returns it when the context has been cancelled and the
  queue is empty. When the context has been cancelled and a connection is queued, it
  returns at once: the closed error or the oldest queued connection, as the select
  picks. While the context is live, it stays blocked on an empty queue and otherwise
  returns the oldest queued connection and removes it; any connection it returns is the
  oldest one. \<^verbatim>\<open>httpHandler\<close> adds connections at the other end of the queue only, so
  connections come out in the order they went in.
\<close>

theorem Accept_closed_fifo:
  "(\<forall>l' e. Accept pick l = Some (l', Inl e) \<longrightarrow> ctxDone l \<and> e = ErrClosed \<and> l' = l) \<and>
   (ctxDone l \<and> queue l = [] \<longrightarrow> Accept pick l = Some (l, Inl ErrClosed)) \<and>
   (\<forall>c cs. ctxDone l \<and> queue l = c # cs \<longrightarrow>
      Accept pick l =
        (case pick of
           PickCtxDone \<Rightarrow> Some (l, Inl ErrClosed)
         | PickQueue \<Rightarrow> Some (l\<lparr>queue := cs\<rparr>, Inr c))) \<and>
   (\<not> ctxDone l \<and> queue l = [] \<longrightarrow> Accept pick l = None) \<and>
   (\<forall>c cs. \<not> ctxDone l \<and> queue l = c # cs \<longrightarrow> Accept pick l = Some (l\<lparr>queue := cs\<rparr>, Inr c)) \<and>
   (\<forall>l' c. Accept pick l = Some (l', Inr c) \<longrightarrow> queue l = c # queue l' \<and> l' = l\<lparr>queue := queue l'\<rparr>) \<and>
   (\<forall>env l1 es. httpHandler env l = (l1, es) \<longrightarrow>
      queue l1 = queue l \<or> (\<exists>c. queue l1 = queue l @ [c]))"
proof -
  have enq: "queue l1 = queue l \<or> (\<exists>c. queue l1 = queue l @ [c])"
    if "httpHandler env l = (l1, es)" for env l1 es
    using httpHandler_queue [OF that] by auto
  show ?thesis
    using enq
    by (cases "queue l"; cases pick) (auto simp: Accept_def)
qed

theorem Accept_closed_fifo_witness:
  "Accept PickQueue (listenerWith True []) = Some (listenerWith True [], Inl ErrClosed) \<and>
   Accept PickQueue (listenerWith False []) = None \<and>
   Accept PickCtxDone (listenerWith False [okConn, okConn\<lparr>conn_sess := 22\<rparr>]) =
     Some (listenerWith False [okConn\<lparr>conn_sess := 22\<rparr>], Inr okConn) \<and>
   Accept PickCtxDone (listenerWith True [okConn, okConn\<lparr>conn_sess := 22\<rparr>]) =
     Some (listenerWith True [okConn, okConn\<lparr>conn_sess := 22\<rparr>], Inl ErrClosed) \<and>
   Accept PickQueue (listenerWith True [okConn, okConn\<lparr>conn_sess := 22\<rparr>]) =
     Some (listenerWith True [okConn\<lparr>conn_sess := 22\<rparr>], Inr okConn)"
proof -
  let ?c2 = "okConn\<lparr>conn_sess := 22\<rparr>"
  have sel: "ctxDone (listenerWith d q) = d" "queue (listenerWith d q) = q"
    "(listenerWith d q)\<lparr>queue := q'\<rparr> = listenerWith d q'" for d q q'
    by (simp_all add: listenerWith_def)
  have a: "Accept PickQueue (listenerWith True []) = Some (listenerWith True [], Inl ErrClosed)"
    using Accept_closed_fifo [of PickQueue "listenerWith True []", THEN conjunct2, THEN conjunct1]
    by (simp only: sel simp_thms)
  have b: "Accept PickQueue (listenerWith False []) = None"
    using Accept_closed_fifo [of PickQueue "listenerWith False []",
        THEN conjunct2, THEN conjunct2, THEN conjunct2, THEN conjunct1]
    by (simp only: sel simp_thms)
  have c: "Accept PickCtxDone (listenerWith False [okConn, ?c2]) =
      Some (listenerWith False [?c2], Inr okConn)"
    using Accept_closed_fifo [of PickCtxDone "listenerWith False [okConn, ?c2]",
        THEN conjunct2, THEN conjunct2, THEN conjunct2, THEN conjunct2, THEN conjunct1,
        rule_format, of okConn "[?c2]"]
    by (simp only: sel simp_thms)
  have d: "Accept PickCtxDone (listenerWith True [okConn, ?c2]) =
      Some (listenerWith True [okConn, ?c2], Inl ErrClosed)"
    using Accept_closed_fifo [of PickCtxDone "listenerWith True [okConn, ?c2]",
        THEN conjunct2, THEN conjunct2, THEN conjunct1, rule_format, of okConn "[?c2]"]
    by (simp only: sel simp_thms accept_case.case)
  have e: "Accept PickQueue (listenerWith True [okConn, ?c2]) =
      Some (listenerWith True [?c2], Inr okConn)"
    using Accept_closed_fifo [of PickQueue "listenerWith True [okConn, ?c2]",
        THEN conjunct2, THEN conjunct2, THEN conjunct1, rule_format, of okConn "[?c2]"]
    by (simp only: sel simp_thms accept_case.case)
  from a b c d e show ?thesis by (intro conjI)
qed

text \<open>
  The claim as first stated has the closed error returned whenever the context has been
  cancelled. After one request and a \<^verbatim>\<open>Close\<close> both cases of the select are ready,
  and when the queue's case is picked \<^verbatim>\<open>Accept\<close> returns the queued connection.
\<close>

theorem Accept_closed_fifo_counterexample:
  "reachable (listenerWith True [okConn]) \<and>
   ctxDone (listenerWith True [okConn]) \<and>
   Accept PickQueue (listenerWith True [okConn]) = Some (listenerWith True [], Inr okConn)"
proof -
  have "reachable (listenerWith True (replicate 1 okConn))"
    by (rule reachable_closed) (simp add: queueLen_def)
  then show ?thesis by (simp add: Accept_def listenerWith_def)
qed

subsection \<open>A remote address that cannot be translated\<close>

text \<open>
  Claim C9, as amended. A request with the right sub-protocol selector whose remote
  address fails translation is rejected with the bad-request status, the same status
  that a missing or mismatched selector gets; the failure is logged as an error, and
  nothing else happens: no gater is asked, no reservation is opened, no handshake is
  run and the listener is unchanged.
\<close>

theorem httpHandler_bad_remote_address:
  assumes "queryType env = Some [''noise'']" and "remoteMultiaddr env = Inl err"
  shows "httpHandler env l =
           (l, [Errorw ''converting remote address failed'', WriteHeader StatusBadRequest]) \<and>
         (\<forall>env'. queryType env' \<noteq> Some [''noise''] \<longrightarrow>
            httpHandler env' l = (l, [WriteHeader StatusBadRequest]))"
proof -
  have sel: "(ts = [''noise'']) = (length ts = 1 \<and> ts ! 0 = ''noise'')" for ts :: "string list"
    by (cases ts) auto
  have "httpHandler env' l = (l, [WriteHeader StatusBadRequest])"
    if "queryType env' \<noteq> Some [''noise'']" for env'
    using that sel [of "the (queryType env')"]
    by (cases "queryType env'") (auto simp: httpHandler_def)
  moreover have "httpHandler env l =
      (l, [Errorw ''converting remote address failed'', WriteHeader StatusBadRequest])"
    using assms by (simp add: httpHandler_def)
  ultimately show ?thesis by blast
qed

theorem httpHandler_bad_remote_address_witness:
  "httpHandler (okRequest\<lparr>remoteMultiaddr := Inl (IOErr 3)\<rparr>) (listenerWith False []) =
     (listenerWith False [],
      [Errorw ''converting remote address failed'', WriteHeader StatusBadRequest]) \<and>
   httpHandler (okRequest\<lparr>queryType := Some [''noise'', ''noise'']\<rparr>) (listenerWith False []) =
     (listenerWith False [], [WriteHeader StatusBadRequest])"
  using httpHandler_bad_remote_address
    [of "okRequest\<lparr>remoteMultiaddr := Inl (IOErr 3)\<rparr>" "IOErr 3" "listenerWith False []"]
  by (simp add: okRequest_def)

text \<open>
  The claim as first stated has the two rejections differ in status. Both write status
  400.
\<close>

theorem httpHandler_bad_remote_address_counterexample:
  "snd (httpHandler (okRequest\<lparr>remoteMultiaddr := Inl (IOErr 3)\<rparr>) (listenerWith False [])) =
     [Errorw ''converting remote address failed'', WriteHeader 400] \<and>
   snd (httpHandler (okRequest\<lparr>queryType := None\<rparr>) (listenerWith False [])) =
     [WriteHeader 400] \<and>
   snd (httpHandler (okRequest\<lparr>queryType := Some [''tls'']\<rparr>) (listenerWith False [])) =
     [WriteHeader 400]"
  by (simp add: httpHandler_def okRequest_def StatusBadRequest_def)

end
